theory Spec2Isabelle
  imports Complex_Main
begin

section \<open>Locking primitives of gevent (src/gevent/lock.py)\<close>

text \<open>
  The module defines three classes of its own: \<^verbatim>\<open>_OwnedLock\<close> (a gate keyed by the
  identity of the OS thread), \<^verbatim>\<open>_AtomicSemaphore\<close> (a subclass of the base
  \<^verbatim>\<open>Semaphore\<close> that brackets the public methods with the gate),
  \<^verbatim>\<open>DummySemaphore\<close> and \<^verbatim>\<open>RLock\<close>. Every method is embedded
  as a function from the object's state to an outcome and the new state.
\<close>

subsection \<open>Values, exceptions and outcomes\<close>

text \<open>
  The Python values that the methods return: \<^verbatim>\<open>None\<close>, booleans and integers.
  \<open>truthy\<close> is the test that \<^verbatim>\<open>if rc:\<close> performs.
\<close>

datatype pyval = PyNone | PyBool bool | PyInt int

fun truthy :: "pyval \<Rightarrow> bool" where
  "truthy PyNone = False"
| "truthy (PyBool b) = b"
| "truthy (PyInt i) = (i \<noteq> 0)"

datatype error = KeyError | RuntimeError string | OtherError string

text \<open>
  A call returns a value, raises, or never returns because the OS thread sleeps on a
  mutex (or the task on a suspension) that nobody releases.
\<close>

datatype 'a outcome = Returned 'a | Raised error | Blocked

type_synonym timeout = "real option"

text \<open>
  \<^verbatim>\<open>try: body finally: fin\<close>. The \<^verbatim>\<open>finally\<close> clause runs when the body
  returns or raises; an exception of the clause replaces the body's outcome.
\<close>

definition try_finally ::
  "('s \<Rightarrow> 'a outcome \<times> 's) \<Rightarrow> ('s \<Rightarrow> unit outcome \<times> 's) \<Rightarrow> 's \<Rightarrow> 'a outcome \<times> 's" where
  "try_finally body fin s =
     (case body s of
        (Blocked, s1) \<Rightarrow> (Blocked, s1)
      | (r, s1) \<Rightarrow>
          (case fin s1 of
             (Returned u, s2) \<Rightarrow> (r, s2)
           | (Raised e, s2) \<Rightarrow> (Raised e, s2)
           | (Blocked, s2) \<Rightarrow> (Blocked, s2)))"

text \<open>
  \<^verbatim>\<open>with lock: return body\<close>: \<^verbatim>\<open>__enter__\<close>, then the body, then
  \<^verbatim>\<open>__exit__\<close> on every exit path. \<^verbatim>\<open>__exit__\<close> returns \<^verbatim>\<open>None\<close>,
  so an exception of the body is not swallowed.
\<close>

definition with_stmt ::
  "('s \<Rightarrow> unit outcome \<times> 's) \<Rightarrow> ('s \<Rightarrow> unit outcome \<times> 's) \<Rightarrow>
   ('s \<Rightarrow> 'a outcome \<times> 's) \<Rightarrow> 's \<Rightarrow> 'a outcome \<times> 's" where
  "with_stmt enter exit body s =
     (case enter s of
        (Returned u, s1) \<Rightarrow> try_finally body exit s1
      | (Raised e, s1) \<Rightarrow> (Raised e, s1)
      | (Blocked, s1) \<Rightarrow> (Blocked, s1))"

subsection \<open>\<^verbatim>\<open>_OwnedLock\<close>\<close>

text \<open>
  \<^verbatim>\<open>_get_ident()\<close> is the identity of the running OS thread; the methods take it as
  the argument \<open>me\<close>. \<^verbatim>\<open>_block\<close> is a raw lock of the \<^verbatim>\<open>_thread\<close> module:
  \<open>True\<close> when locked. Acquiring it while locked puts the thread to sleep, releasing
  it while unlocked raises \<^verbatim>\<open>RuntimeError\<close>.
\<close>

type_synonym ident = nat

record OwnedLock =
  ol_owner :: "ident option"
  ol_block :: bool
  ol_locking :: "ident \<rightharpoonup> int"
  ol_count :: int

definition OwnedLock_init :: OwnedLock where
  "OwnedLock_init =
     \<lparr>ol_owner = None, ol_block = False, ol_locking = Map.empty, ol_count = 0\<rparr>"

text \<open>
  \<^verbatim>\<open>__begin\<close>. The result \<^verbatim>\<open>(me, count)\<close> is \<open>Some (me, count)\<close> and the
  sentinel \<^verbatim>\<open>(None, None)\<close> is \<open>None\<close>. \<^verbatim>\<open>not count\<close> on an integer is
  \<open>count = 0\<close>.
\<close>

definition OwnedLock_begin :: "ident \<Rightarrow> OwnedLock \<Rightarrow> (ident \<times> int) option \<times> OwnedLock" where
  "OwnedLock_begin me s =
     (let count = (case ol_locking s me of None \<Rightarrow> 1 | Some c \<Rightarrow> c + 1);
          s1 = s\<lparr>ol_locking := (ol_locking s)(me \<mapsto> count)\<rparr>
      in (if count = 0 then Some (me, count) else None, s1))"

text \<open>\<^verbatim>\<open>__end\<close>. \<^verbatim>\<open>del self._locking[me]\<close> raises \<^verbatim>\<open>KeyError\<close> on a missing key.\<close>

definition OwnedLock_end :: "(ident \<times> int) option \<Rightarrow> OwnedLock \<Rightarrow> unit outcome \<times> OwnedLock" where
  "OwnedLock_end tok s =
     (case tok of
        None \<Rightarrow> (Returned (), s)
      | Some (me, count0) \<Rightarrow>
          (let count = count0 - 1 in
           if count = 0 then
             (case ol_locking s me of
                None \<Rightarrow> (Raised KeyError, s)
              | Some c \<Rightarrow> (Returned (), s\<lparr>ol_locking := (ol_locking s)(me := None)\<rparr>))
           else (Returned (), s\<lparr>ol_locking := (ol_locking s)(me \<mapsto> count)\<rparr>)))"

text \<open>\<^verbatim>\<open>__enter__\<close>, also bound to the name \<^verbatim>\<open>acquire\<close>.\<close>

definition OwnedLock_enter :: "ident \<Rightarrow> OwnedLock \<Rightarrow> unit outcome \<times> OwnedLock" where
  "OwnedLock_enter me0 s0 =
     (let (tok, s) = OwnedLock_begin me0 s0 in
      try_finally
        (\<lambda>s. case tok of
                None \<Rightarrow> (Returned (), s)
              | Some (me, lock_count) \<Rightarrow>
                  if ol_owner s = Some me then (Returned (), s\<lparr>ol_count := ol_count s + 1\<rparr>)
                  else
                    (let s1 = s\<lparr>ol_owner := Some me\<rparr> in
                     if ol_block s1 then (Blocked, s1)
                     else (Returned (), s1\<lparr>ol_block := True, ol_count := 1\<rparr>)))
        (OwnedLock_end tok) s)"

definition OwnedLock_acquire :: "ident \<Rightarrow> OwnedLock \<Rightarrow> unit outcome \<times> OwnedLock" where
  "OwnedLock_acquire = OwnedLock_enter"

text \<open>\<^verbatim>\<open>release\<close>.\<close>

definition OwnedLock_release :: "ident \<Rightarrow> OwnedLock \<Rightarrow> unit outcome \<times> OwnedLock" where
  "OwnedLock_release me0 s0 =
     (let (tok, s) = OwnedLock_begin me0 s0 in
      try_finally
        (\<lambda>s. case tok of
                None \<Rightarrow> (Returned (), s)
              | Some (me, lock_count) \<Rightarrow>
                  (let count = ol_count s - 1; s1 = s\<lparr>ol_count := count\<rparr> in
                   if count = 0 then
                     (if ol_block s1 then (Returned (), s1\<lparr>ol_block := False, ol_owner := None\<rparr>)
                      else (Raised (RuntimeError ''release unlocked lock''), s1))
                   else (Returned (), s1)))
        (OwnedLock_end tok) s)"

text \<open>\<^verbatim>\<open>__exit__\<close> calls \<^verbatim>\<open>release\<close> and returns \<^verbatim>\<open>None\<close>.\<close>

definition OwnedLock_exit :: "ident \<Rightarrow> OwnedLock \<Rightarrow> unit outcome \<times> OwnedLock" where
  "OwnedLock_exit me s = OwnedLock_release me s"

subsection \<open>\<^verbatim>\<open>_AtomicSemaphore\<close>\<close>

text \<open>
  \<^verbatim>\<open>_AtomicSemaphore\<close> extends the base \<^verbatim>\<open>Semaphore\<close> of
  \<^verbatim>\<open>gevent._semaphore\<close>, whose code is not part of this module. The inherited
  methods are therefore parameters. A method body of the base class is a program over
  the base state \<open>'s\<close> (the counter and the waiters): it returns, raises, reads and
  updates the base state, or calls \<^verbatim>\<open>self._wait(args)\<close> and goes on with what the
  call returned or raised. In \<open>Access f k\<close> the state becomes \<open>f s\<close> and the program
  continues as \<open>k s\<close>, where \<open>s\<close> is the state before the update.
\<close>

datatype ('s, 'a) base_code =
    Return pyval
  | Raise error
  | Access "'s \<Rightarrow> 's" "'s \<Rightarrow> ('s, 'a) base_code"
  | CallWait 'a "error + pyval \<Rightarrow> ('s, 'a) base_code"

text \<open>
  The base class alone: \<^verbatim>\<open>self._wait\<close> is the base \<^verbatim>\<open>_wait\<close>, the sub-step
  that suspends the task. It is the parameter \<open>base_wait\<close>: what the base state is
  when the task resumes, and what the sub-step returns or raises.
\<close>

primrec Semaphore_call ::
  "('a \<Rightarrow> 's \<Rightarrow> pyval outcome \<times> 's) \<Rightarrow> ('s, 'a) base_code \<Rightarrow> 's \<Rightarrow> pyval outcome \<times> 's" where
  "Semaphore_call base_wait (Return v) = (\<lambda>s. (Returned v, s))"
| "Semaphore_call base_wait (Raise e) = (\<lambda>s. (Raised e, s))"
| "Semaphore_call base_wait (Access f k) = (\<lambda>s. Semaphore_call base_wait (k s) (f s))"
| "Semaphore_call base_wait (CallWait args k) =
     (\<lambda>s. case base_wait args s of
            (Returned v, s1) \<Rightarrow> Semaphore_call base_wait (k (Inr v)) s1
          | (Raised e, s1) \<Rightarrow> Semaphore_call base_wait (k (Inl e)) s1
          | (Blocked, s1) \<Rightarrow> (Blocked, s1))"

text \<open>
  The state of an \<^verbatim>\<open>_AtomicSemaphore\<close>: the slot \<^verbatim>\<open>_lock_lock\<close> and the
  inherited state. \<open>trace\<close> is a history variable, not a slot of the class: it records,
  at each access of the base state and at each entry into the suspending sub-step, the
  owner of the gate and whether its OS mutex is locked at that moment.
\<close>

datatype event = Mutation "ident option" bool | Suspension "ident option" bool

record 's AtomicSemaphore =
  lock_lock :: OwnedLock
  sem :: 's
  trace :: "event list"

definition AtomicSemaphore_init :: "'s \<Rightarrow> 's AtomicSemaphore" where
  "AtomicSemaphore_init base_init = \<lparr>lock_lock = OwnedLock_init, sem = base_init, trace = []\<rparr>"

text \<open>A method of \<^verbatim>\<open>self._lock_lock\<close> called on the semaphore.\<close>

definition on_lock_lock ::
  "(OwnedLock \<Rightarrow> 'x outcome \<times> OwnedLock) \<Rightarrow> 's AtomicSemaphore \<Rightarrow> 'x outcome \<times> 's AtomicSemaphore" where
  "on_lock_lock m st = (case m (lock_lock st) of (r, g) \<Rightarrow> (r, st\<lparr>lock_lock := g\<rparr>))"

text \<open>\<^verbatim>\<open>_wait\<close>: the gate is released before the \<^verbatim>\<open>try\<close> and acquired in \<^verbatim>\<open>finally\<close>.\<close>

definition AtomicSemaphore__wait ::
  "ident \<Rightarrow> ('a \<Rightarrow> 's \<Rightarrow> pyval outcome \<times> 's) \<Rightarrow> 'a \<Rightarrow> 's AtomicSemaphore \<Rightarrow>
   pyval outcome \<times> 's AtomicSemaphore" where
  "AtomicSemaphore__wait me base_wait args st0 =
     (case on_lock_lock (OwnedLock_release me) st0 of
        (Returned u, st1) \<Rightarrow>
          try_finally
            (\<lambda>st. case base_wait args (sem st) of
                     (r, b) \<Rightarrow>
                       (r, st\<lparr>sem := b,
                              trace := trace st @
                                [Suspension (ol_owner (lock_lock st)) (ol_block (lock_lock st))]\<rparr>))
            (on_lock_lock (OwnedLock_acquire me)) st1
      | (Raised e, st1) \<Rightarrow> (Raised e, st1)
      | (Blocked, st1) \<Rightarrow> (Blocked, st1))"

text \<open>
  An inherited method body run on an \<^verbatim>\<open>_AtomicSemaphore\<close>:
  \<^verbatim>\<open>super(_AtomicSemaphore, self).m(...)\<close>. Here \<^verbatim>\<open>self._wait\<close> is the override.
\<close>

primrec super_call ::
  "ident \<Rightarrow> ('a \<Rightarrow> 's \<Rightarrow> pyval outcome \<times> 's) \<Rightarrow> ('s, 'a) base_code \<Rightarrow> 's AtomicSemaphore \<Rightarrow>
   pyval outcome \<times> 's AtomicSemaphore" where
  "super_call me base_wait (Return v) = (\<lambda>st. (Returned v, st))"
| "super_call me base_wait (Raise e) = (\<lambda>st. (Raised e, st))"
| "super_call me base_wait (Access f k) =
     (\<lambda>st. super_call me base_wait (k (sem st))
             (st\<lparr>sem := f (sem st),
                 trace := trace st @
                   [Mutation (ol_owner (lock_lock st)) (ol_block (lock_lock st))]\<rparr>))"
| "super_call me base_wait (CallWait args k) =
     (\<lambda>st. case AtomicSemaphore__wait me base_wait args st of
             (Returned v, st1) \<Rightarrow> super_call me base_wait (k (Inr v)) st1
           | (Raised e, st1) \<Rightarrow> super_call me base_wait (k (Inl e)) st1
           | (Blocked, st1) \<Rightarrow> (Blocked, st1))"

text \<open>\<^verbatim>\<open>release\<close>, \<^verbatim>\<open>acquire\<close> and \<^verbatim>\<open>wait\<close>: the inherited method inside \<^verbatim>\<open>with self._lock_lock\<close>.\<close>

definition AtomicSemaphore_release ::
  "ident \<Rightarrow> ('a \<Rightarrow> 's \<Rightarrow> pyval outcome \<times> 's) \<Rightarrow> ('s, 'a) base_code \<Rightarrow> 's AtomicSemaphore \<Rightarrow>
   pyval outcome \<times> 's AtomicSemaphore" where
  "AtomicSemaphore_release me base_wait base_release st =
     with_stmt (on_lock_lock (OwnedLock_enter me)) (on_lock_lock (OwnedLock_exit me))
       (super_call me base_wait base_release) st"

definition AtomicSemaphore_acquire ::
  "ident \<Rightarrow> ('a \<Rightarrow> 's \<Rightarrow> pyval outcome \<times> 's) \<Rightarrow> (bool \<Rightarrow> timeout \<Rightarrow> ('s, 'a) base_code) \<Rightarrow>
   bool \<Rightarrow> timeout \<Rightarrow> 's AtomicSemaphore \<Rightarrow> pyval outcome \<times> 's AtomicSemaphore" where
  "AtomicSemaphore_acquire me base_wait base_acquire blocking timeout st =
     with_stmt (on_lock_lock (OwnedLock_enter me)) (on_lock_lock (OwnedLock_exit me))
       (super_call me base_wait (base_acquire blocking timeout)) st"

definition AtomicSemaphore_wait ::
  "ident \<Rightarrow> ('a \<Rightarrow> 's \<Rightarrow> pyval outcome \<times> 's) \<Rightarrow> (timeout \<Rightarrow> ('s, 'a) base_code) \<Rightarrow>
   timeout \<Rightarrow> 's AtomicSemaphore \<Rightarrow> pyval outcome \<times> 's AtomicSemaphore" where
  "AtomicSemaphore_wait me base_wait base_wait_method timeout st =
     with_stmt (on_lock_lock (OwnedLock_enter me)) (on_lock_lock (OwnedLock_exit me))
       (super_call me base_wait (base_wait_method timeout)) st"

text \<open>
  The gate does not act for thread \<open>me\<close> when its entry in \<^verbatim>\<open>_locking\<close> is absent or
  not negative: \<^verbatim>\<open>__begin\<close> then stores a positive number.
\<close>

definition locking_nonneg :: "ident \<Rightarrow> OwnedLock \<Rightarrow> bool" where
  "locking_nonneg me g = (case ol_locking g me of None \<Rightarrow> True | Some c \<Rightarrow> 0 \<le> c)"

subsection \<open>\<^verbatim>\<open>DummySemaphore\<close>\<close>

text \<open>The class has no attributes; \<^verbatim>\<open>__init__\<close> ignores its argument.\<close>

datatype DummySemaphore = DummySemaphore

definition DummySemaphore_init :: "pyval \<Rightarrow> DummySemaphore" where
  "DummySemaphore_init v = DummySemaphore"

definition DummySemaphore_locked :: "DummySemaphore \<Rightarrow> pyval outcome \<times> DummySemaphore" where
  "DummySemaphore_locked d = (Returned (PyBool False), d)"

definition DummySemaphore_ready :: "DummySemaphore \<Rightarrow> pyval outcome \<times> DummySemaphore" where
  "DummySemaphore_ready d = (Returned (PyBool True), d)"

definition DummySemaphore_release :: "DummySemaphore \<Rightarrow> pyval outcome \<times> DummySemaphore" where
  "DummySemaphore_release d = (Returned PyNone, d)"

definition DummySemaphore_wait :: "timeout \<Rightarrow> DummySemaphore \<Rightarrow> pyval outcome \<times> DummySemaphore" where
  "DummySemaphore_wait timeout d = (Returned (PyInt 1), d)"

definition DummySemaphore_acquire ::
  "bool \<Rightarrow> timeout \<Rightarrow> DummySemaphore \<Rightarrow> pyval outcome \<times> DummySemaphore" where
  "DummySemaphore_acquire blocking timeout d = (Returned (PyBool True), d)"

subsection \<open>\<^verbatim>\<open>RLock\<close>\<close>

text \<open>
  \<^verbatim>\<open>getcurrent()\<close> is the running greenlet, the argument \<open>me\<close>; \<^verbatim>\<open>is\<close> compares
  identities. \<^verbatim>\<open>_block\<close> is a \<^verbatim>\<open>Semaphore(1)\<close>: its state has the abstract type
  \<open>'s\<close> and its methods \<^verbatim>\<open>acquire\<close> and \<^verbatim>\<open>release\<close> are the parameters
  \<open>sem_acquire\<close> and \<open>sem_release\<close>.
\<close>

type_synonym greenlet = nat

record 's RLock =
  rl_block :: 's
  rl_owner :: "greenlet option"
  rl_count :: int

definition RLock_init :: "'s \<Rightarrow> 's RLock" where
  "RLock_init semaphore_1 = \<lparr>rl_block = semaphore_1, rl_owner = None, rl_count = 0\<rparr>"

definition RLock_acquire ::
  "(bool \<Rightarrow> timeout \<Rightarrow> 's \<Rightarrow> pyval outcome \<times> 's) \<Rightarrow> greenlet \<Rightarrow> bool \<Rightarrow> timeout \<Rightarrow> 's RLock \<Rightarrow>
   pyval outcome \<times> 's RLock" where
  "RLock_acquire sem_acquire me blocking timeout l =
     (if rl_owner l = Some me then (Returned (PyInt 1), l\<lparr>rl_count := rl_count l + 1\<rparr>)
      else
        (case sem_acquire blocking timeout (rl_block l) of
           (Returned rc, b) \<Rightarrow>
             (if truthy rc then (Returned rc, l\<lparr>rl_block := b, rl_owner := Some me, rl_count := 1\<rparr>)
              else (Returned rc, l\<lparr>rl_block := b\<rparr>))
         | (Raised e, b) \<Rightarrow> (Raised e, l\<lparr>rl_block := b\<rparr>)
         | (Blocked, b) \<Rightarrow> (Blocked, l\<lparr>rl_block := b\<rparr>)))"

definition RLock_release ::
  "('s \<Rightarrow> pyval outcome \<times> 's) \<Rightarrow> greenlet \<Rightarrow> 's RLock \<Rightarrow> unit outcome \<times> 's RLock" where
  "RLock_release sem_release me l =
     (if rl_owner l \<noteq> Some me then
        (Raised (RuntimeError ''cannot release un-acquired lock''), l)
      else
        (let count = rl_count l - 1; l1 = l\<lparr>rl_count := count\<rparr> in
         if count = 0 then
           (let l2 = l1\<lparr>rl_owner := None\<rparr> in
            case sem_release (rl_block l2) of
              (Returned v, b) \<Rightarrow> (Returned (), l2\<lparr>rl_block := b\<rparr>)
            | (Raised e, b) \<Rightarrow> (Raised e, l2\<lparr>rl_block := b\<rparr>)
            | (Blocked, b) \<Rightarrow> (Blocked, l2\<lparr>rl_block := b\<rparr>))
         else (Returned (), l1)))"

text \<open>\<^verbatim>\<open>_acquire_restore\<close>: \<^verbatim>\<open>self._block.acquire()\<close> has the default arguments.\<close>

definition RLock_acquire_restore ::
  "(bool \<Rightarrow> timeout \<Rightarrow> 's \<Rightarrow> pyval outcome \<times> 's) \<Rightarrow> int \<times> greenlet option \<Rightarrow> 's RLock \<Rightarrow>
   unit outcome \<times> 's RLock" where
  "RLock_acquire_restore sem_acquire count_owner l =
     (case count_owner of
        (count, owner) \<Rightarrow>
          (case sem_acquire True None (rl_block l) of
             (Returned rc, b) \<Rightarrow>
               (Returned (), l\<lparr>rl_block := b, rl_count := count, rl_owner := owner\<rparr>)
           | (Raised e, b) \<Rightarrow> (Raised e, l\<lparr>rl_block := b\<rparr>)
           | (Blocked, b) \<Rightarrow> (Blocked, l\<lparr>rl_block := b\<rparr>)))"

definition RLock_release_save ::
  "('s \<Rightarrow> pyval outcome \<times> 's) \<Rightarrow> 's RLock \<Rightarrow> (int \<times> greenlet option) outcome \<times> 's RLock" where
  "RLock_release_save sem_release l =
     (let count = rl_count l;
          l1 = l\<lparr>rl_count := 0\<rparr>;
          owner = rl_owner l1;
          l2 = l1\<lparr>rl_owner := None\<rparr>
      in case sem_release (rl_block l2) of
           (Returned v, b) \<Rightarrow> (Returned (count, owner), l2\<lparr>rl_block := b\<rparr>)
         | (Raised e, b) \<Rightarrow> (Raised e, l2\<lparr>rl_block := b\<rparr>)
         | (Blocked, b) \<Rightarrow> (Blocked, l2\<lparr>rl_block := b\<rparr>))"

definition RLock_is_owned :: "greenlet \<Rightarrow> 's RLock \<Rightarrow> bool" where
  "RLock_is_owned me l = (rl_owner l = Some me)"

text \<open>\<open>n\<close> calls of \<^verbatim>\<open>acquire\<close> in a row by one greenlet, with the list of their outcomes.\<close>

fun RLock_acquire_times ::
  "(bool \<Rightarrow> timeout \<Rightarrow> 's \<Rightarrow> pyval outcome \<times> 's) \<Rightarrow> greenlet \<Rightarrow> bool \<Rightarrow> timeout \<Rightarrow> nat \<Rightarrow>
   's RLock \<Rightarrow> pyval outcome list \<times> 's RLock" where
  "RLock_acquire_times sem_acquire me blocking timeout 0 l = ([], l)"
| "RLock_acquire_times sem_acquire me blocking timeout (Suc n) l =
     (case RLock_acquire sem_acquire me blocking timeout l of
        (r, l1) \<Rightarrow>
          (case RLock_acquire_times sem_acquire me blocking timeout n l1 of
             (rs, l2) \<Rightarrow> (r # rs, l2)))"

text \<open>
  The invariant of the lock: with an owner the count is positive, without one it is 0.
\<close>

definition RLock_inv :: "'s RLock \<Rightarrow> bool" where
  "RLock_inv l = (case rl_owner l of None \<Rightarrow> rl_count l = 0 | Some g \<Rightarrow> 0 < rl_count l)"

section \<open>The gate when \<^verbatim>\<open>__begin\<close> returns the sentinel\<close>

text \<open>
  \<^verbatim>\<open>__begin\<close> stores 1 or the old entry plus 1 and proceeds only when that number is
  0. With an entry that is absent or not negative it returns the sentinel, and
  \<^verbatim>\<open>__enter__\<close> and \<^verbatim>\<open>release\<close> then change nothing but the entry.
\<close>

lemma locking_nonneg_init: "locking_nonneg me OwnedLock_init"
  by (simp add: locking_nonneg_def OwnedLock_init_def)

lemma OwnedLock_begin_nonneg:
  "locking_nonneg me g \<Longrightarrow>
   \<exists>g1. OwnedLock_begin me g = (None, g1) \<and> locking_nonneg me g1 \<and>
        ol_owner g1 = ol_owner g \<and> ol_block g1 = ol_block g \<and> ol_count g1 = ol_count g"
  by (auto simp: OwnedLock_begin_def locking_nonneg_def Let_def split: option.splits)

lemma OwnedLock_enter_nonneg:
  "locking_nonneg me g \<Longrightarrow>
   \<exists>g1. OwnedLock_enter me g = (Returned (), g1) \<and> locking_nonneg me g1 \<and>
        ol_owner g1 = ol_owner g \<and> ol_block g1 = ol_block g \<and> ol_count g1 = ol_count g"
  using OwnedLock_begin_nonneg [of me g]
  by (auto simp: OwnedLock_enter_def try_finally_def OwnedLock_end_def)

lemma OwnedLock_release_nonneg:
  "locking_nonneg me g \<Longrightarrow>
   \<exists>g1. OwnedLock_release me g = (Returned (), g1) \<and> locking_nonneg me g1 \<and>
        ol_owner g1 = ol_owner g \<and> ol_block g1 = ol_block g \<and> ol_count g1 = ol_count g"
  using OwnedLock_begin_nonneg [of me g]
  by (auto simp: OwnedLock_release_def try_finally_def OwnedLock_end_def)

lemma AtomicSemaphore__wait_nonneg:
  assumes "locking_nonneg me (lock_lock st)"
  shows "fst (AtomicSemaphore__wait me base_wait args st) = fst (base_wait args (sem st)) \<and>
         sem (snd (AtomicSemaphore__wait me base_wait args st)) = snd (base_wait args (sem st)) \<and>
         locking_nonneg me (lock_lock (snd (AtomicSemaphore__wait me base_wait args st)))"
proof -
  obtain g1 where r: "OwnedLock_release me (lock_lock st) = (Returned (), g1)"
    and n1: "locking_nonneg me g1"
    using OwnedLock_release_nonneg [OF assms] by (elim exE conjE)
  obtain g2 where a: "OwnedLock_enter me g1 = (Returned (), g2)"
    and n2: "locking_nonneg me g2"
    using OwnedLock_enter_nonneg [OF n1] by (elim exE conjE)
  obtain r0 b where w: "base_wait args (sem st) = (r0, b)"
    by (cases "base_wait args (sem st)")
  show ?thesis
    using r a n1 n2 w
    by (cases r0)
       (simp_all add: AtomicSemaphore__wait_def on_lock_lock_def try_finally_def
          OwnedLock_acquire_def)
qed

lemma super_call_nonneg:
  "locking_nonneg me (lock_lock st) \<Longrightarrow>
   fst (super_call me base_wait code st) = fst (Semaphore_call base_wait code (sem st)) \<and>
   sem (snd (super_call me base_wait code st)) = snd (Semaphore_call base_wait code (sem st)) \<and>
   locking_nonneg me (lock_lock (snd (super_call me base_wait code st)))"
proof (induction code arbitrary: st)
  case (Return v)
  then show ?case by simp
next
  case (Raise e)
  then show ?case by simp
next
  case (Access f k)
  have "locking_nonneg me (lock_lock (st\<lparr>sem := f (sem st),
          trace := trace st @ [Mutation (ol_owner (lock_lock st)) (ol_block (lock_lock st))]\<rparr>))"
    using Access.prems by simp
  from Access.IH [OF rangeI this] show ?case by simp
next
  case (CallWait args k)
  obtain r1 st1 where w: "AtomicSemaphore__wait me base_wait args st = (r1, st1)"
    by (cases "AtomicSemaphore__wait me base_wait args st")
  obtain r0 b where bw: "base_wait args (sem st) = (r0, b)"
    by (cases "base_wait args (sem st)")
  have eqs: "r1 = r0" "sem st1 = b" and n1: "locking_nonneg me (lock_lock st1)"
    using AtomicSemaphore__wait_nonneg [OF CallWait.prems, of base_wait args] w bw by simp_all
  show ?case
  proof (cases r0)
    case (Returned v)
    from CallWait.IH [OF rangeI n1, of "Inr v"] show ?thesis
      by (simp add: w bw eqs Returned)
  next
    case (Raised e)
    from CallWait.IH [OF rangeI n1, of "Inl e"] show ?thesis
      by (simp add: w bw eqs Raised)
  next
    case Blocked
    with n1 show ?thesis by (simp add: w bw eqs)
  qed
qed

lemma with_lock_lock_nonneg:
  assumes "locking_nonneg me (lock_lock st)"
  shows "fst (with_stmt (on_lock_lock (OwnedLock_enter me)) (on_lock_lock (OwnedLock_exit me))
             (super_call me base_wait code) st)
           = fst (Semaphore_call base_wait code (sem st)) \<and>
         sem (snd (with_stmt (on_lock_lock (OwnedLock_enter me)) (on_lock_lock (OwnedLock_exit me))
             (super_call me base_wait code) st))
           = snd (Semaphore_call base_wait code (sem st)) \<and>
         locking_nonneg me (lock_lock (snd (with_stmt (on_lock_lock (OwnedLock_enter me))
             (on_lock_lock (OwnedLock_exit me)) (super_call me base_wait code) st)))"
proof -
  obtain g1 where e: "OwnedLock_enter me (lock_lock st) = (Returned (), g1)"
    and n1: "locking_nonneg me g1"
    using OwnedLock_enter_nonneg [OF assms] by (elim exE conjE)
  let ?st1 = "st\<lparr>lock_lock := g1\<rparr>"
  have n1': "locking_nonneg me (lock_lock ?st1)" using n1 by simp
  obtain r2 st2 where c: "super_call me base_wait code ?st1 = (r2, st2)"
    by (cases "super_call me base_wait code ?st1")
  have r2: "r2 = fst (Semaphore_call base_wait code (sem st))"
    and s2: "sem st2 = snd (Semaphore_call base_wait code (sem st))"
    and n2: "locking_nonneg me (lock_lock st2)"
    using super_call_nonneg [OF n1', of base_wait code] c by simp_all
  obtain g3 where x: "OwnedLock_release me (lock_lock st2) = (Returned (), g3)"
    and n3: "locking_nonneg me g3"
    using OwnedLock_release_nonneg [OF n2] by (elim exE conjE)
  show ?thesis
    using e c s2 x n2 n3 r2 [symmetric]
    by (cases r2)
       (simp_all add: with_stmt_def on_lock_lock_def try_finally_def OwnedLock_exit_def)
qed


section \<open>Claims\<close>

text \<open>
  C1. Claimed: on a first, non-nested call (no entry for the thread in \<^verbatim>\<open>_locking\<close>)
  \<^verbatim>\<open>__begin\<close> tells the caller to proceed. The code stores the count 1 and tests
  \<^verbatim>\<open>not count\<close>, which is false for 1: on the fresh lock the call by thread 7
  returns the sentinel \<^verbatim>\<open>(None, None)\<close>.
\<close>

theorem OwnedLock_begin_first_call_sentinel:
  "OwnedLock_begin 7 OwnedLock_init =
     (None, \<lparr>ol_owner = None, ol_block = False, ol_locking = [7 \<mapsto> 1], ol_count = 0\<rparr>)"
  by (simp add: OwnedLock_begin_def OwnedLock_init_def)

text \<open>
  C2. Claimed: a non-nested \<^verbatim>\<open>enter()\<close> by a thread that is not the owner acquires
  the OS mutex and sets the owner and the depth 1. On the fresh lock \<^verbatim>\<open>__enter__\<close>
  called by thread 7 returns with no owner, the OS mutex free and the depth 0; only the
  entry of \<^verbatim>\<open>_locking\<close> is left behind.
\<close>

theorem OwnedLock_enter_fresh_takes_nothing:
  "OwnedLock_enter 7 OwnedLock_init =
     (Returned (), \<lparr>ol_owner = None, ol_block = False, ol_locking = [7 \<mapsto> 1], ol_count = 0\<rparr>)"
  by (simp add: OwnedLock_enter_def OwnedLock_begin_def OwnedLock_end_def OwnedLock_init_def
      try_finally_def)

text \<open>
  C3. Claimed: the gate is held whenever the counter or the waiters are mutated. On a
  fresh semaphore with counter 0, \<^verbatim>\<open>release\<close> with a base method that increments the
  counter performs the update while the gate has no owner and its OS mutex is free.
\<close>

theorem AtomicSemaphore_release_mutates_without_gate:
  "AtomicSemaphore_release 7 (\<lambda>(args::timeout) (c::int). (Returned PyNone, c))
     (Access (\<lambda>c. c + 1) (\<lambda>c. Return PyNone)) (AtomicSemaphore_init 0) =
   (Returned PyNone,
    \<lparr>lock_lock = \<lparr>ol_owner = None, ol_block = False, ol_locking = [7 \<mapsto> 2], ol_count = 0\<rparr>,
     sem = 1, trace = [Mutation None False]\<rparr>)"
  by (simp add: AtomicSemaphore_release_def AtomicSemaphore_init_def with_stmt_def
      on_lock_lock_def try_finally_def OwnedLock_enter_def OwnedLock_exit_def
      OwnedLock_release_def OwnedLock_begin_def OwnedLock_end_def OwnedLock_init_def)

text \<open>
  C4. When the owner is the calling greenlet, \<^verbatim>\<open>acquire\<close> returns 1 and adds 1 to the
  count, whatever the semaphore's \<^verbatim>\<open>acquire\<close> is and with \<^verbatim>\<open>_block\<close> untouched;
  \<open>n\<close> such calls in a row all return 1 and add \<open>n\<close>. On a new lock whose first
  \<^verbatim>\<open>acquire\<close> obtains the semaphore, \<open>n + 1\<close> calls in a row all succeed and leave
  the count \<open>n + 1\<close>.
\<close>

theorem RLock_acquire_by_owner:
  "(rl_owner l = Some me \<longrightarrow>
      RLock_acquire sem_acquire me blocking timeout l =
        (Returned (PyInt 1), l\<lparr>rl_count := rl_count l + 1\<rparr>) \<and>
      RLock_acquire_times sem_acquire me blocking timeout n l =
        (replicate n (Returned (PyInt 1)), l\<lparr>rl_count := rl_count l + int n\<rparr>)) \<and>
   (sem_acquire blocking timeout s1 = (Returned rc, b) \<and> truthy rc \<longrightarrow>
      RLock_acquire_times sem_acquire me blocking timeout (Suc n) (RLock_init s1) =
        (Returned rc # replicate n (Returned (PyInt 1)),
         \<lparr>rl_block = b, rl_owner = Some me, rl_count = 1 + int n\<rparr>))"
proof -
  have one: "RLock_acquire sem_acquire me blocking timeout l' =
      (Returned (PyInt 1), l'\<lparr>rl_count := rl_count l' + 1\<rparr>)"
    if "rl_owner l' = Some me" for l' :: "'a RLock"
    using that by (simp add: RLock_acquire_def)
  have many: "RLock_acquire_times sem_acquire me blocking timeout k l' =
      (replicate k (Returned (PyInt 1)), l'\<lparr>rl_count := rl_count l' + int k\<rparr>)"
    if "rl_owner l' = Some me" for l' :: "'a RLock" and k
    using that
  proof (induction k arbitrary: l')
    case 0
    then show ?case by simp
  next
    case (Suc k)
    have "rl_owner (l'\<lparr>rl_count := rl_count l' + 1\<rparr>) = Some me"
      using Suc.prems by simp
    from Suc.IH [OF this] one [OF Suc.prems] show ?case
      by (simp add: add.assoc)
  qed
  have first: "RLock_acquire_times sem_acquire me blocking timeout (Suc n) (RLock_init s1) =
        (Returned rc # replicate n (Returned (PyInt 1)),
         \<lparr>rl_block = b, rl_owner = Some me, rl_count = 1 + int n\<rparr>)"
    if a: "sem_acquire blocking timeout s1 = (Returned rc, b)" and t: "truthy rc"
  proof -
    let ?l1 = "\<lparr>rl_block = b, rl_owner = Some me, rl_count = 1\<rparr>"
    have "RLock_acquire sem_acquire me blocking timeout (RLock_init s1) = (Returned rc, ?l1)"
      using a t by (simp add: RLock_acquire_def RLock_init_def)
    moreover have "RLock_acquire_times sem_acquire me blocking timeout n ?l1 =
        (replicate n (Returned (PyInt 1)), ?l1\<lparr>rl_count := rl_count ?l1 + int n\<rparr>)"
      by (rule many) simp
    ultimately show ?thesis by simp
  qed
  show ?thesis using one many first by blast
qed

theorem RLock_acquire_by_owner_witness:
  "RLock_acquire_times (\<lambda>blocking timeout (c::int). if 0 < c then (Returned (PyBool True), c - 1)
        else (Returned (PyBool False), c)) 5 True None 3
     \<lparr>rl_block = 0, rl_owner = Some 5, rl_count = 1\<rparr> =
     ([Returned (PyInt 1), Returned (PyInt 1), Returned (PyInt 1)],
      \<lparr>rl_block = 0, rl_owner = Some 5, rl_count = 4\<rparr>) \<and>
   RLock_acquire_times (\<lambda>blocking timeout (c::int). if 0 < c then (Returned (PyBool True), c - 1)
        else (Returned (PyBool False), c)) 5 True None (Suc 2) (RLock_init 1) =
     ([Returned (PyBool True), Returned (PyInt 1), Returned (PyInt 1)],
      \<lparr>rl_block = 0, rl_owner = Some 5, rl_count = 3\<rparr>)"
  using RLock_acquire_by_owner [of "\<lparr>rl_block = 0::int, rl_owner = Some 5, rl_count = 1\<rparr>" 5
      "\<lambda>blocking timeout (c::int). if 0 < c then (Returned (PyBool True), c - 1)
        else (Returned (PyBool False), c)" True None 3 1 "PyBool True" 0]
    RLock_acquire_by_owner [of "\<lparr>rl_block = 0::int, rl_owner = Some 5, rl_count = 1\<rparr>" 5
      "\<lambda>blocking timeout (c::int). if 0 < c then (Returned (PyBool True), c - 1)
        else (Returned (PyBool False), c)" True None 2 1 "PyBool True" 0]
  by (simp add: numeral_3_eq_3 numeral_2_eq_2)


text \<open>
  C5. \<^verbatim>\<open>release\<close> by a greenlet that is not the owner (also when there is no owner)
  raises \<^verbatim>\<open>RuntimeError\<close> and leaves the count, the owner and the semaphore as
  they were. \<^verbatim>\<open>release\<close> by the owner subtracts 1 from the count; when the result is
  not 0 nothing else changes, and when it is 0 the owner is cleared and the semaphore's
  \<^verbatim>\<open>release\<close> is called, whose outcome is the outcome of the call.
\<close>

theorem RLock_release_ownership:
  "(rl_owner l \<noteq> Some me \<longrightarrow>
      RLock_release sem_release me l =
        (Raised (RuntimeError ''cannot release un-acquired lock''), l)) \<and>
   (rl_owner l = Some me \<and> rl_count l \<noteq> 1 \<longrightarrow>
      RLock_release sem_release me l = (Returned (), l\<lparr>rl_count := rl_count l - 1\<rparr>)) \<and>
   (rl_owner l = Some me \<and> rl_count l = 1 \<longrightarrow>
      snd (RLock_release sem_release me l) =
        \<lparr>rl_block = snd (sem_release (rl_block l)), rl_owner = None, rl_count = 0\<rparr> \<and>
      fst (RLock_release sem_release me l) =
        (case fst (sem_release (rl_block l)) of
           Returned v \<Rightarrow> Returned () | Raised e \<Rightarrow> Raised e | Blocked \<Rightarrow> Blocked))"
  by (cases "sem_release (rl_block l)")
     (simp add: RLock_release_def Let_def split: outcome.splits)

theorem RLock_release_ownership_witness:
  "RLock_release (\<lambda>c::int. (Returned PyNone, c + 1)) 6
      \<lparr>rl_block = 0, rl_owner = Some 5, rl_count = 2\<rparr> =
     (Raised (RuntimeError ''cannot release un-acquired lock''),
      \<lparr>rl_block = 0, rl_owner = Some 5, rl_count = 2\<rparr>) \<and>
   RLock_release (\<lambda>c::int. (Returned PyNone, c + 1)) 5
      \<lparr>rl_block = 0, rl_owner = Some 5, rl_count = 2\<rparr> =
     (Returned (), \<lparr>rl_block = 0, rl_owner = Some 5, rl_count = 1\<rparr>) \<and>
   snd (RLock_release (\<lambda>c::int. (Returned PyNone, c + 1)) 5
      \<lparr>rl_block = 0, rl_owner = Some 5, rl_count = 1\<rparr>) =
     \<lparr>rl_block = 1, rl_owner = None, rl_count = 0\<rparr>"
  using RLock_release_ownership [of "\<lparr>rl_block = 0::int, rl_owner = Some 5, rl_count = 2\<rparr>" 6
      "\<lambda>c::int. (Returned PyNone, c + 1)"]
    RLock_release_ownership [of "\<lparr>rl_block = 0::int, rl_owner = Some 5, rl_count = 2\<rparr>" 5
      "\<lambda>c::int. (Returned PyNone, c + 1)"]
    RLock_release_ownership [of "\<lparr>rl_block = 0::int, rl_owner = Some 5, rl_count = 1\<rparr>" 5
      "\<lambda>c::int. (Returned PyNone, c + 1)"]
  by simp

text \<open>
  C6. \<^verbatim>\<open>_release_save\<close> clears the count and the owner, calls the semaphore's
  \<^verbatim>\<open>release\<close> and, when that returns, returns the pair of the old count and owner.
  \<^verbatim>\<open>_acquire_restore\<close> applied to that pair right after calls the semaphore's
  \<^verbatim>\<open>acquire\<close> and, when that returns, puts the count and the owner back: the lock is
  as before the pair of calls, up to the state of the semaphore. This holds for every
  state of the lock, so also for one held by the calling greenlet with a count of at
  least 1.
\<close>

theorem RLock_save_restore_roundtrip:
  assumes "sem_release (rl_block l) = (Returned v, b1)"
    and "sem_acquire True None b1 = (Returned rc, b2)"
  shows "RLock_release_save sem_release l =
           (Returned (rl_count l, rl_owner l), \<lparr>rl_block = b1, rl_owner = None, rl_count = 0\<rparr>) \<and>
         RLock_acquire_restore sem_acquire (rl_count l, rl_owner l)
             \<lparr>rl_block = b1, rl_owner = None, rl_count = 0\<rparr> =
           (Returned (), l\<lparr>rl_block := b2\<rparr>)"
  using assms by (simp add: RLock_release_save_def RLock_acquire_restore_def Let_def)

theorem RLock_save_restore_roundtrip_witness:
  "RLock_release_save (\<lambda>c::int. (Returned PyNone, c + 1))
       \<lparr>rl_block = 0, rl_owner = Some 5, rl_count = 2\<rparr> =
     (Returned (2, Some 5), \<lparr>rl_block = 1, rl_owner = None, rl_count = 0\<rparr>) \<and>
   RLock_acquire_restore (\<lambda>blocking timeout (c::int). (Returned (PyBool True), c - 1)) (2, Some 5)
       \<lparr>rl_block = 1, rl_owner = None, rl_count = 0\<rparr> =
     (Returned (), \<lparr>rl_block = 0, rl_owner = Some 5, rl_count = 2\<rparr>)"
  using RLock_save_restore_roundtrip [of "\<lambda>c::int. (Returned PyNone, c + 1)"
      "\<lparr>rl_block = 0::int, rl_owner = Some 5, rl_count = 2\<rparr>" PyNone 1
      "\<lambda>blocking timeout (c::int). (Returned (PyBool True), c - 1)" "PyBool True" 0]
  by simp

text \<open>
  C7. The invariant (with an owner the count is positive, without one it is 0) holds
  for a new lock and, when it holds before, it holds after \<^verbatim>\<open>acquire\<close> (whatever
  the semaphore returns or raises), after \<^verbatim>\<open>release\<close>, after
  \<^verbatim>\<open>_release_save\<close>, and after \<^verbatim>\<open>_acquire_restore\<close> of a pair captured from a
  state in which it held. The owner is one field: two greenlets that both own the lock
  are the same.
\<close>

theorem RLock_inv_preserved:
  "RLock_inv (RLock_init s1) \<and>
   (RLock_inv l \<longrightarrow> RLock_inv (snd (RLock_acquire sem_acquire me blocking timeout l))) \<and>
   (RLock_inv l \<longrightarrow> RLock_inv (snd (RLock_release sem_release me l))) \<and>
   RLock_inv (snd (RLock_release_save sem_release l)) \<and>
   (RLock_inv l \<and> RLock_inv l0 \<longrightarrow>
      RLock_inv (snd (RLock_acquire_restore sem_acquire (rl_count l0, rl_owner l0) l))) \<and>
   (RLock_is_owned g1 l \<and> RLock_is_owned g2 l \<longrightarrow> g1 = g2)"
proof -
  have init: "RLock_inv (RLock_init s1)"
    by (simp add: RLock_inv_def RLock_init_def)
  have acq: "RLock_inv (snd (RLock_acquire sem_acquire me blocking timeout l))" if "RLock_inv l"
  proof (cases "sem_acquire blocking timeout (rl_block l)")
    case (Pair r b)
    with that show ?thesis
      by (cases r) (auto simp: RLock_inv_def RLock_acquire_def split: option.splits)
  qed
  have rel: "RLock_inv (snd (RLock_release sem_release me l))" if "RLock_inv l"
  proof (cases "sem_release (rl_block l)")
    case (Pair r b)
    with that show ?thesis
      by (cases r) (auto simp: RLock_inv_def RLock_release_def Let_def split: option.splits)
  qed
  have save: "RLock_inv (snd (RLock_release_save sem_release l))"
  proof (cases "sem_release (rl_block l)")
    case (Pair r b)
    then show ?thesis
      by (cases r) (simp_all add: RLock_inv_def RLock_release_save_def Let_def)
  qed
  have restore: "RLock_inv (snd (RLock_acquire_restore sem_acquire (rl_count l0, rl_owner l0) l))"
    if "RLock_inv l" "RLock_inv l0"
  proof (cases "sem_acquire True None (rl_block l)")
    case (Pair r b)
    with that show ?thesis
      by (cases r) (auto simp: RLock_inv_def RLock_acquire_restore_def split: option.splits)
  qed
  have one: "g1 = g2" if "RLock_is_owned g1 l" "RLock_is_owned g2 l"
    using that by (simp add: RLock_is_owned_def)
  show ?thesis using init acq rel save restore one by blast
qed

theorem RLock_inv_preserved_witness:
  "RLock_inv \<lparr>rl_block = 0::int, rl_owner = Some 5, rl_count = 2\<rparr> \<and>
   RLock_inv (snd (RLock_acquire (\<lambda>blocking timeout (c::int). (Returned (PyBool False), c)) 6 False None
      \<lparr>rl_block = 0, rl_owner = Some 5, rl_count = 2\<rparr>)) \<and>
   RLock_inv (snd (RLock_release (\<lambda>c::int. (Returned PyNone, c + 1)) 5
      \<lparr>rl_block = 0, rl_owner = Some 5, rl_count = 2\<rparr>)) \<and>
   RLock_inv (snd (RLock_acquire_restore (\<lambda>blocking timeout (c::int). (Returned (PyBool False), c))
      (2, Some 5) \<lparr>rl_block = 0, rl_owner = Some 5, rl_count = 2\<rparr>)) \<and>
   RLock_is_owned 5 \<lparr>rl_block = 0::int, rl_owner = Some 5, rl_count = 2\<rparr>"
  using RLock_inv_preserved [of "0::int" "\<lparr>rl_block = 0::int, rl_owner = Some 5, rl_count = 2\<rparr>"
      "\<lambda>blocking timeout (c::int). (Returned (PyBool False), c)" 6 False None
      "\<lambda>c::int. (Returned PyNone, c + 1)"
      "\<lparr>rl_block = 0::int, rl_owner = Some 5, rl_count = 2\<rparr>" 5 5]
    RLock_inv_preserved [of "0::int" "\<lparr>rl_block = 0::int, rl_owner = Some 5, rl_count = 2\<rparr>"
      "\<lambda>blocking timeout (c::int). (Returned (PyBool False), c)" 5 False None
      "\<lambda>c::int. (Returned PyNone, c + 1)"
      "\<lparr>rl_block = 0::int, rl_owner = Some 5, rl_count = 2\<rparr>" 5 5]
  by (simp add: RLock_inv_def RLock_is_owned_def)

text \<open>
  C8. When the caller is not the owner and the semaphore's \<^verbatim>\<open>acquire\<close> returns a
  false value, \<^verbatim>\<open>acquire\<close> returns that value and does not raise; the owner and the
  count are as before the call.
\<close>

theorem RLock_acquire_failure:
  assumes "rl_owner l \<noteq> Some me"
    and "sem_acquire blocking timeout (rl_block l) = (Returned rc, b)"
    and "\<not> truthy rc"
  shows "RLock_acquire sem_acquire me blocking timeout l = (Returned rc, l\<lparr>rl_block := b\<rparr>)"
  using assms by (simp add: RLock_acquire_def)

theorem RLock_acquire_failure_witness:
  "RLock_acquire (\<lambda>blocking timeout (c::int). if 0 < c then (Returned (PyBool True), c - 1)
        else (Returned (PyBool False), c)) 6 True (Some 0)
      \<lparr>rl_block = 0, rl_owner = Some 5, rl_count = 2\<rparr> =
     (Returned (PyBool False), \<lparr>rl_block = 0, rl_owner = Some 5, rl_count = 2\<rparr>)"
  using RLock_acquire_failure [of "\<lparr>rl_block = 0::int, rl_owner = Some 5, rl_count = 2\<rparr>" 6
      "\<lambda>blocking timeout (c::int). if 0 < c then (Returned (PyBool True), c - 1)
        else (Returned (PyBool False), c)" True "Some 0" "PyBool False" 0]
  by simp

text \<open>
  C9. Every operation of \<^verbatim>\<open>DummySemaphore\<close> returns at once and changes nothing:
  \<^verbatim>\<open>acquire\<close> returns \<^verbatim>\<open>True\<close> and \<^verbatim>\<open>wait\<close> returns 1 for all arguments,
  \<^verbatim>\<open>locked\<close> returns \<^verbatim>\<open>False\<close>, \<^verbatim>\<open>ready\<close> returns \<^verbatim>\<open>True\<close> and
  \<^verbatim>\<open>release\<close> returns \<^verbatim>\<open>None\<close>.
\<close>

theorem DummySemaphore_never_blocks:
  "DummySemaphore_acquire blocking timeout d = (Returned (PyBool True), d) \<and>
   DummySemaphore_wait timeout d = (Returned (PyInt 1), d) \<and>
   DummySemaphore_locked d = (Returned (PyBool False), d) \<and>
   DummySemaphore_ready d = (Returned (PyBool True), d) \<and>
   DummySemaphore_release d = (Returned PyNone, d)"
  by (simp add: DummySemaphore_acquire_def DummySemaphore_wait_def DummySemaphore_locked_def
      DummySemaphore_ready_def DummySemaphore_release_def)

text \<open>
  C10. On a semaphore whose gate has no negative entry for the calling thread in
  \<^verbatim>\<open>_locking\<close> (true of a new semaphore and kept by the three methods), each of
  \<^verbatim>\<open>acquire\<close>, \<^verbatim>\<open>wait\<close> and \<^verbatim>\<open>release\<close> has the outcome of the inherited
  method run on the base class alone and leaves the inherited state as that run leaves
  it. The base methods are arbitrary, with or without calls of \<^verbatim>\<open>_wait\<close>.
\<close>

theorem AtomicSemaphore_refines_Semaphore:
  assumes "locking_nonneg me (lock_lock st)"
  shows "fst (AtomicSemaphore_acquire me base_wait base_acquire blocking timeout st) =
           fst (Semaphore_call base_wait (base_acquire blocking timeout) (sem st)) \<and>
         sem (snd (AtomicSemaphore_acquire me base_wait base_acquire blocking timeout st)) =
           snd (Semaphore_call base_wait (base_acquire blocking timeout) (sem st)) \<and>
         locking_nonneg me
           (lock_lock (snd (AtomicSemaphore_acquire me base_wait base_acquire blocking timeout st))) \<and>
         fst (AtomicSemaphore_wait me base_wait base_wait_method timeout st) =
           fst (Semaphore_call base_wait (base_wait_method timeout) (sem st)) \<and>
         sem (snd (AtomicSemaphore_wait me base_wait base_wait_method timeout st)) =
           snd (Semaphore_call base_wait (base_wait_method timeout) (sem st)) \<and>
         locking_nonneg me
           (lock_lock (snd (AtomicSemaphore_wait me base_wait base_wait_method timeout st))) \<and>
         fst (AtomicSemaphore_release me base_wait base_release st) =
           fst (Semaphore_call base_wait base_release (sem st)) \<and>
         sem (snd (AtomicSemaphore_release me base_wait base_release st)) =
           snd (Semaphore_call base_wait base_release (sem st)) \<and>
         locking_nonneg me (lock_lock (snd (AtomicSemaphore_release me base_wait base_release st)))"
  unfolding AtomicSemaphore_acquire_def AtomicSemaphore_wait_def AtomicSemaphore_release_def
  using with_lock_lock_nonneg [OF assms, of base_wait "base_acquire blocking timeout"]
    with_lock_lock_nonneg [OF assms, of base_wait "base_wait_method timeout"]
    with_lock_lock_nonneg [OF assms, of base_wait base_release]
  by simp

theorem AtomicSemaphore_refines_Semaphore_witness:
  "locking_nonneg 7 (lock_lock (AtomicSemaphore_init (0::int))) \<and>
   fst (AtomicSemaphore_acquire 7 (\<lambda>(args::timeout) (c::int). (Returned (PyBool True), c + 1))
      (\<lambda>blocking timeout. Access id (\<lambda>c. if 0 < c then Access (\<lambda>c. c - 1) (\<lambda>c. Return (PyBool True))
          else if \<not> blocking then Return (PyBool False)
          else CallWait timeout (\<lambda>r. Access (\<lambda>c. c - 1) (\<lambda>c. Return (PyBool True)))))
      True None (AtomicSemaphore_init 0)) = Returned (PyBool True) \<and>
   sem (snd (AtomicSemaphore_acquire 7 (\<lambda>(args::timeout) (c::int). (Returned (PyBool True), c + 1))
      (\<lambda>blocking timeout. Access id (\<lambda>c. if 0 < c then Access (\<lambda>c. c - 1) (\<lambda>c. Return (PyBool True))
          else if \<not> blocking then Return (PyBool False)
          else CallWait timeout (\<lambda>r. Access (\<lambda>c. c - 1) (\<lambda>c. Return (PyBool True)))))
      True None (AtomicSemaphore_init 0))) = 0"
proof -
  have h: "locking_nonneg 7 (lock_lock (AtomicSemaphore_init (0::int)))"
    by (simp add: AtomicSemaphore_init_def locking_nonneg_def OwnedLock_init_def)
  show ?thesis
    using h AtomicSemaphore_refines_Semaphore [OF h,
      of "\<lambda>(args::timeout) (c::int). (Returned (PyBool True), c + 1)"
         "\<lambda>blocking timeout. Access id (\<lambda>c. if 0 < c then Access (\<lambda>c. c - 1) (\<lambda>c. Return (PyBool True))
          else if \<not> blocking then Return (PyBool False)
          else CallWait timeout (\<lambda>r. Access (\<lambda>c. c - 1) (\<lambda>c. Return (PyBool True))))"
         True None]
    by (simp add: AtomicSemaphore_init_def)
qed

end
